theory Spec2Isabelle
  imports Complex_Main "HOL-Library.Word"
begin

unbundle bit_operations_syntax

section \<open>Tables (db/tables.ts)\<close>

text \<open>
  A timestamp is the millisecond count of a JavaScript \<open>Date\<close>.  An optional column
  holds \<open>None\<close> for NULL.
  A field is named as its column, after the name of its table: the fields of all
  records share one name space, in which \<open>id\<close> is the identity function.
\<close>

type_synonym timestamp = int

text \<open>
  A JavaScript number other than NaN, which no schema here accepts: plus or minus
  Infinity, or a finite double, given by its exact value.  Every finite double is a
  rational number; the model admits every rational.
\<close>

datatype number = Finite rat | PosInfinity | NegInfinity

record speech =
  speech_id :: string
  speech_userId :: string
  speech_title :: string
  speech_occasion :: "string option"
  speech_audience :: "string option"
  speech_language :: "string option"
  speech_notes :: "string option"
  speech_createdAt :: timestamp
  speech_updatedAt :: timestamp

record speech_version =
  version_id :: string
  version_speechId :: string
  version_versionLabel :: "string option"
  version_tone :: "string option"
  version_targetDurationMinutes :: "number option"
  version_scriptText :: string
  version_isPreferred :: bool
  version_createdAt :: timestamp

datatype table_name = Speeches | SpeechVersions

datatype statement = SELECT table_name | INSERT table_name | UPDATE table_name | DELETE table_name

text \<open>
  The store: the rows of the two tables in storage order, and the list of the
  statements sent to the persistence layer so far (oldest first).  The last field is
  what makes "no persistence call was made" a property of a run.
\<close>

record database =
  speeches :: "speech list"
  versions :: "speech_version list"
  issued :: "statement list"

text \<open>Both tables declare \<open>id\<close> as primary key.\<close>

definition primary_keys :: "database \<Rightarrow> bool" where
  "primary_keys d \<longleftrightarrow> distinct (map speech_id (speeches d)) \<and> distinct (map version_id (versions d))"

section \<open>Errors and effects\<close>

text \<open>
  \<open>UNAUTHORIZED\<close> and \<open>NOT_FOUND\<close> are the codes of the two \<open>ActionError\<close>s the source
  throws.  \<open>BAD_REQUEST\<close> is the input error raised when the input schema rejects the
  input (the spec's ValidationError).  \<open>INTERNAL_SERVER_ERROR\<close> is how a caller sees
  any other exception, here one thrown by the persistence layer: a primary key that
  is already taken, a number it cannot send, a number it cannot read back.
\<close>

datatype action_error = UNAUTHORIZED | NOT_FOUND | BAD_REQUEST | INTERNAL_SERVER_ERROR

type_synonym 'a io = "database \<Rightarrow> (action_error + 'a) \<times> database"

definition ret :: "'a \<Rightarrow> 'a io" where
  "ret x d = (Inr x, d)"

definition throw :: "action_error \<Rightarrow> 'a io" where
  "throw e d = (Inl e, d)"

text \<open>\<open>await m k\<close>: run \<open>m\<close>; an error aborts, a value is passed on to \<open>k\<close>.\<close>

definition await :: "'a io \<Rightarrow> ('a \<Rightarrow> 'b io) \<Rightarrow> 'b io" where
  "await m k d = (case m d of (Inl e, d') \<Rightarrow> (Inl e, d') | (Inr x, d') \<Rightarrow> k x d')"

text \<open>The array pattern \<open>const [x] = rows\<close>: the first row, or undefined.\<close>

definition first :: "'a list \<Rightarrow> 'a option" where
  "first rows = (case rows of [] \<Rightarrow> None | x # _ \<Rightarrow> Some x)"

section \<open>The persistence layer\<close>

text \<open>
  \<open>db.select().from(T).where(P)\<close>, \<open>db.insert(T).values(r).returning()\<close>,
  \<open>db.update(T).set(f).where(P).returning()\<close> and \<open>db.delete(T).where(P)\<close>, one
  definition per table.  Each logs its statement.  A select returns the matching rows
  in storage order; an insert appends the row unless its primary key is taken; an
  update rewrites every matching row and returns the rewritten rows; a delete removes
  every matching row and returns the number of rows affected.

  The one numeric column, \<open>targetDurationMinutes\<close>, limits what can be written and
  read.  The client refuses to send a number that is not finite, so such a statement
  throws before it runs.  The column has integer affinity: the store keeps a whole
  number of magnitude below \<open>2^63\<close> as a 64-bit integer and any other number as a
  double.  The client hands a stored integer back as a number only from
  \<open>-(2^53 - 1)\<close> to \<open>2^53 - 1\<close> and throws on any other, so a statement that returns
  such a row throws after it has run: the rows it wrote stay written.
\<close>

definition bindable :: "number option \<Rightarrow> bool" where
  "bindable v = (case v of Some PosInfinity \<Rightarrow> False | Some NegInfinity \<Rightarrow> False | _ \<Rightarrow> True)"

definition unsafe_integer :: "number \<Rightarrow> bool" where
  "unsafe_integer n =
     (case n of
        Finite q \<Rightarrow> q = of_int \<lfloor>q\<rfloor> \<and> 2 ^ 53 \<le> \<bar>q\<bar> \<and> \<bar>q\<bar> < 2 ^ 63
      | _ \<Rightarrow> False)"

definition readable_version :: "speech_version \<Rightarrow> bool" where
  "readable_version r =
     (case version_targetDurationMinutes r of None \<Rightarrow> True | Some n \<Rightarrow> \<not> unsafe_integer n)"

text \<open>What a statement returns: its rows, unless one of them cannot be read back.\<close>

definition returned :: "speech_version list \<Rightarrow> action_error + speech_version list" where
  "returned rows = (if list_all readable_version rows then Inr rows else Inl INTERNAL_SERVER_ERROR)"

definition issue :: "statement \<Rightarrow> database \<Rightarrow> database" where
  "issue st d = d\<lparr>issued := issued d @ [st]\<rparr>"

definition select_speeches :: "(speech \<Rightarrow> bool) \<Rightarrow> speech list io" where
  "select_speeches P d = (Inr (filter P (speeches d)), issue (SELECT Speeches) d)"

definition select_versions :: "(speech_version \<Rightarrow> bool) \<Rightarrow> speech_version list io" where
  "select_versions P d = (returned (filter P (versions d)), issue (SELECT SpeechVersions) d)"

definition insert_speech :: "speech \<Rightarrow> speech list io" where
  "insert_speech r d =
     (if speech_id r \<in> speech_id ` set (speeches d)
      then (Inl INTERNAL_SERVER_ERROR, issue (INSERT Speeches) d)
      else (Inr [r], issue (INSERT Speeches) (d\<lparr>speeches := speeches d @ [r]\<rparr>)))"

definition insert_version :: "speech_version \<Rightarrow> speech_version list io" where
  "insert_version r d =
     (if \<not> bindable (version_targetDurationMinutes r) \<or>
         version_id r \<in> version_id ` set (versions d)
      then (Inl INTERNAL_SERVER_ERROR, issue (INSERT SpeechVersions) d)
      else (returned [r], issue (INSERT SpeechVersions) (d\<lparr>versions := versions d @ [r]\<rparr>)))"

definition update_speeches :: "(speech \<Rightarrow> speech) \<Rightarrow> (speech \<Rightarrow> bool) \<Rightarrow> speech list io" where
  "update_speeches f P d =
     (Inr (map f (filter P (speeches d))),
      issue (UPDATE Speeches) (d\<lparr>speeches := map (\<lambda>r. if P r then f r else r) (speeches d)\<rparr>))"

text \<open>
  The object given to \<open>.set\<close> for a version: the columns to assign, \<open>None\<close> for a key
  the object does not have; and what assigning them does to a row.
\<close>

record version_set =
  set_versionLabel :: "string option"
  set_tone :: "string option"
  set_targetDurationMinutes :: "number option"
  set_scriptText :: "string option"
  set_isPreferred :: "bool option"

definition assign :: "version_set \<Rightarrow> speech_version \<Rightarrow> speech_version" where
  "assign s r =
     (let r1 = (case set_versionLabel s of None \<Rightarrow> r | Some v \<Rightarrow> r\<lparr>version_versionLabel := Some v\<rparr>);
          r2 = (case set_tone s of None \<Rightarrow> r1 | Some v \<Rightarrow> r1\<lparr>version_tone := Some v\<rparr>);
          r3 = (case set_targetDurationMinutes s of None \<Rightarrow> r2
                | Some v \<Rightarrow> r2\<lparr>version_targetDurationMinutes := Some v\<rparr>);
          r4 = (case set_scriptText s of None \<Rightarrow> r3 | Some v \<Rightarrow> r3\<lparr>version_scriptText := v\<rparr>);
          r5 = (case set_isPreferred s of None \<Rightarrow> r4 | Some v \<Rightarrow> r4\<lparr>version_isPreferred := v\<rparr>)
      in r5)"

definition update_versions :: "version_set \<Rightarrow> (speech_version \<Rightarrow> bool) \<Rightarrow> speech_version list io" where
  "update_versions s P d =
     (if \<not> bindable (set_targetDurationMinutes s)
      then (Inl INTERNAL_SERVER_ERROR, issue (UPDATE SpeechVersions) d)
      else (returned (map (assign s) (filter P (versions d))),
            issue (UPDATE SpeechVersions)
              (d\<lparr>versions := map (\<lambda>r. if P r then assign s r else r) (versions d)\<rparr>)))"

definition delete_versions :: "(speech_version \<Rightarrow> bool) \<Rightarrow> nat io" where
  "delete_versions P d =
     (Inr (length (filter P (versions d))),
      issue (DELETE SpeechVersions) (d\<lparr>versions := filter (\<lambda>r. \<not> P r) (versions d)\<rparr>))"

section \<open>Request context and the two guards (actions/index.ts, lines 5 to 51)\<close>

record app_user =
  user_id :: string

record app_locals =
  user :: "app_user option"

record action_context =
  locals :: "app_locals option"

definition requireUser :: "action_context \<Rightarrow> action_error + app_user" where
  "requireUser context =
     (case locals context of
        None \<Rightarrow> Inl UNAUTHORIZED
      | Some l \<Rightarrow> (case user l of None \<Rightarrow> Inl UNAUTHORIZED | Some u \<Rightarrow> Inr u))"

definition getOwnedSpeech :: "string \<Rightarrow> string \<Rightarrow> speech io" where
  "getOwnedSpeech speechId userId =
     await (select_speeches (\<lambda>r. speech_id r = speechId \<and> speech_userId r = userId))
       (\<lambda>rows. case first rows of None \<Rightarrow> throw NOT_FOUND | Some speech \<Rightarrow> ret speech)"

definition getOwnedSpeechVersion :: "string \<Rightarrow> string \<Rightarrow> string \<Rightarrow> speech_version io" where
  "getOwnedSpeechVersion versionId speechId userId =
     await (getOwnedSpeech speechId userId)
       (\<lambda>_. await (select_versions (\<lambda>r. version_id r = versionId \<and> version_speechId r = speechId))
          (\<lambda>rows. case first rows of None \<Rightarrow> throw NOT_FOUND | Some version \<Rightarrow> ret version))"

section \<open>Inputs and their schemas\<close>

text \<open>
  The value a caller sends: a JSON value, or undefined.  An object is the list of its
  properties.  \<open>property v k\<close> reads property \<open>k\<close>, undefined when \<open>v\<close> is no
  object or has no such property.
\<close>

datatype jsval =
  JUndefined | JNull | JBool bool | JNum number | JStr string
  | JArr "jsval list" | JObj "(string \<times> jsval) list"

definition is_object :: "jsval \<Rightarrow> bool" where
  "is_object v = (case v of JObj _ \<Rightarrow> True | _ \<Rightarrow> False)"

definition property :: "jsval \<Rightarrow> string \<Rightarrow> jsval" where
  "property v k =
     (case v of
        JObj kvs \<Rightarrow> (case map_of kvs k of None \<Rightarrow> JUndefined | Some x \<Rightarrow> x)
      | _ \<Rightarrow> JUndefined)"

text \<open>
  A schema parses a value into \<open>Some\<close> typed result or rejects it with \<open>None\<close>:
  \<open>z.string()\<close>, \<open>.min(n)\<close>, \<open>z.number()\<close>, \<open>z.boolean()\<close>, \<open>.optional()\<close> and
  \<open>.default(d)\<close>.
\<close>

definition z_string :: "jsval \<Rightarrow> string option" where
  "z_string v = (case v of JStr s \<Rightarrow> Some s | _ \<Rightarrow> None)"

definition z_min :: "nat \<Rightarrow> (jsval \<Rightarrow> string option) \<Rightarrow> jsval \<Rightarrow> string option" where
  "z_min n p v = (case p v of None \<Rightarrow> None | Some s \<Rightarrow> if n \<le> length s then Some s else None)"

definition z_number :: "jsval \<Rightarrow> number option" where
  "z_number v = (case v of JNum n \<Rightarrow> Some n | _ \<Rightarrow> None)"

definition z_boolean :: "jsval \<Rightarrow> bool option" where
  "z_boolean v = (case v of JBool b \<Rightarrow> Some b | _ \<Rightarrow> None)"

definition z_optional :: "(jsval \<Rightarrow> 'a option) \<Rightarrow> jsval \<Rightarrow> 'a option option" where
  "z_optional p v = (case v of JUndefined \<Rightarrow> Some None | _ \<Rightarrow> map_option Some (p v))"

definition z_default :: "'a \<Rightarrow> (jsval \<Rightarrow> 'a option) \<Rightarrow> jsval \<Rightarrow> 'a option" where
  "z_default dflt p v = (case v of JUndefined \<Rightarrow> Some dflt | _ \<Rightarrow> p v)"

text \<open>\<open>.refine(ok)\<close> on a parsed object.\<close>

definition z_refine :: "('a \<Rightarrow> bool) \<Rightarrow> 'a option \<Rightarrow> 'a option" where
  "z_refine ok parsed = (case parsed of None \<Rightarrow> None | Some x \<Rightarrow> if ok x then Some x else None)"

text \<open>
  What each schema yields, one record per action; a field is named as the schema's
  key, after the initials of the action.  An optional key that is absent is \<open>None\<close>.
\<close>

record createSpeech_in =
  cs_title :: string
  cs_occasion :: "string option"
  cs_audience :: "string option"
  cs_language :: "string option"
  cs_notes :: "string option"

record updateSpeech_in =
  us_id :: string
  us_title :: "string option"
  us_occasion :: "string option"
  us_audience :: "string option"
  us_language :: "string option"
  us_notes :: "string option"

record createSpeechVersion_in =
  csv_speechId :: string
  csv_versionLabel :: "string option"
  csv_tone :: "string option"
  csv_targetDurationMinutes :: "number option"
  csv_scriptText :: string
  csv_isPreferred :: "bool option"

record updateSpeechVersion_in =
  usv_id :: string
  usv_speechId :: string
  usv_versionLabel :: "string option"
  usv_tone :: "string option"
  usv_targetDurationMinutes :: "number option"
  usv_scriptText :: "string option"
  usv_isPreferred :: "bool option"

record deleteSpeechVersion_in =
  dsv_id :: string
  dsv_speechId :: string

record listSpeechVersions_in =
  lsv_speechId :: string
  lsv_preferredOnly :: bool

definition createSpeech_input :: "jsval \<Rightarrow> createSpeech_in option" where
  "createSpeech_input raw =
     (if \<not> is_object raw then None
      else
        Option.bind (z_min 1 z_string (property raw ''title'')) (\<lambda>title.
        Option.bind (z_optional z_string (property raw ''occasion'')) (\<lambda>occasion.
        Option.bind (z_optional z_string (property raw ''audience'')) (\<lambda>audience.
        Option.bind (z_optional z_string (property raw ''language'')) (\<lambda>language.
        Option.bind (z_optional z_string (property raw ''notes'')) (\<lambda>notes.
          Some \<lparr>cs_title = title, cs_occasion = occasion, cs_audience = audience,
                cs_language = language, cs_notes = notes\<rparr>))))))"

definition updateSpeech_object :: "jsval \<Rightarrow> updateSpeech_in option" where
  "updateSpeech_object raw =
     (if \<not> is_object raw then None
      else
        Option.bind (z_min 1 z_string (property raw ''id'')) (\<lambda>i.
        Option.bind (z_optional (z_min 1 z_string) (property raw ''title'')) (\<lambda>title.
        Option.bind (z_optional z_string (property raw ''occasion'')) (\<lambda>occasion.
        Option.bind (z_optional z_string (property raw ''audience'')) (\<lambda>audience.
        Option.bind (z_optional z_string (property raw ''language'')) (\<lambda>language.
        Option.bind (z_optional z_string (property raw ''notes'')) (\<lambda>notes.
          Some \<lparr>us_id = i, us_title = title, us_occasion = occasion, us_audience = audience,
                us_language = language, us_notes = notes\<rparr>)))))))"

definition updateSpeech_input :: "jsval \<Rightarrow> updateSpeech_in option" where
  "updateSpeech_input raw =
     z_refine
       (\<lambda>input. us_title input \<noteq> None \<or> us_occasion input \<noteq> None \<or> us_audience input \<noteq> None \<or>
                 us_language input \<noteq> None \<or> us_notes input \<noteq> None)
       (updateSpeech_object raw)"

definition listSpeeches_input :: "jsval \<Rightarrow> unit option option" where
  "listSpeeches_input raw = z_optional (\<lambda>v. if is_object v then Some () else None) raw"

definition createSpeechVersion_input :: "jsval \<Rightarrow> createSpeechVersion_in option" where
  "createSpeechVersion_input raw =
     (if \<not> is_object raw then None
      else
        Option.bind (z_min 1 z_string (property raw ''speechId'')) (\<lambda>speechId.
        Option.bind (z_optional z_string (property raw ''versionLabel'')) (\<lambda>versionLabel.
        Option.bind (z_optional z_string (property raw ''tone'')) (\<lambda>tone.
        Option.bind (z_optional z_number (property raw ''targetDurationMinutes'')) (\<lambda>minutes.
        Option.bind (z_min 1 z_string (property raw ''scriptText'')) (\<lambda>scriptText.
        Option.bind (z_optional z_boolean (property raw ''isPreferred'')) (\<lambda>isPreferred.
          Some \<lparr>csv_speechId = speechId, csv_versionLabel = versionLabel, csv_tone = tone,
                csv_targetDurationMinutes = minutes, csv_scriptText = scriptText,
                csv_isPreferred = isPreferred\<rparr>)))))))"

definition updateSpeechVersion_object :: "jsval \<Rightarrow> updateSpeechVersion_in option" where
  "updateSpeechVersion_object raw =
     (if \<not> is_object raw then None
      else
        Option.bind (z_min 1 z_string (property raw ''id'')) (\<lambda>i.
        Option.bind (z_min 1 z_string (property raw ''speechId'')) (\<lambda>speechId.
        Option.bind (z_optional z_string (property raw ''versionLabel'')) (\<lambda>versionLabel.
        Option.bind (z_optional z_string (property raw ''tone'')) (\<lambda>tone.
        Option.bind (z_optional z_number (property raw ''targetDurationMinutes'')) (\<lambda>minutes.
        Option.bind (z_optional z_string (property raw ''scriptText'')) (\<lambda>scriptText.
        Option.bind (z_optional z_boolean (property raw ''isPreferred'')) (\<lambda>isPreferred.
          Some \<lparr>usv_id = i, usv_speechId = speechId, usv_versionLabel = versionLabel,
                usv_tone = tone, usv_targetDurationMinutes = minutes,
                usv_scriptText = scriptText, usv_isPreferred = isPreferred\<rparr>))))))))"

definition updateSpeechVersion_input :: "jsval \<Rightarrow> updateSpeechVersion_in option" where
  "updateSpeechVersion_input raw =
     z_refine
       (\<lambda>input. usv_versionLabel input \<noteq> None \<or> usv_tone input \<noteq> None \<or>
                 usv_targetDurationMinutes input \<noteq> None \<or> usv_scriptText input \<noteq> None \<or>
                 usv_isPreferred input \<noteq> None)
       (updateSpeechVersion_object raw)"

definition deleteSpeechVersion_input :: "jsval \<Rightarrow> deleteSpeechVersion_in option" where
  "deleteSpeechVersion_input raw =
     (if \<not> is_object raw then None
      else
        Option.bind (z_min 1 z_string (property raw ''id'')) (\<lambda>i.
        Option.bind (z_min 1 z_string (property raw ''speechId'')) (\<lambda>speechId.
          Some \<lparr>dsv_id = i, dsv_speechId = speechId\<rparr>)))"

definition listSpeechVersions_input :: "jsval \<Rightarrow> listSpeechVersions_in option" where
  "listSpeechVersions_input raw =
     (if \<not> is_object raw then None
      else
        Option.bind (z_min 1 z_string (property raw ''speechId'')) (\<lambda>speechId.
        Option.bind (z_default False z_boolean (property raw ''preferredOnly'')) (\<lambda>preferredOnly.
          Some \<lparr>lsv_speechId = speechId, lsv_preferredOnly = preferredOnly\<rparr>)))"

text \<open>
  \<open>defineAction({input, handler})\<close>: the framework parses the input with the schema
  and calls the handler on the parsed value; a rejected input raises the input error
  and the handler is not called.
\<close>

definition defineAction ::
  "(jsval \<Rightarrow> 'i option) \<Rightarrow> ('i \<Rightarrow> action_context \<Rightarrow> 'o io) \<Rightarrow> jsval \<Rightarrow> action_context \<Rightarrow> 'o io" where
  "defineAction input handler raw context =
     (case input raw of None \<Rightarrow> throw BAD_REQUEST | Some parsed \<Rightarrow> handler parsed context)"

section \<open>What a handler reads from its environment\<close>

text \<open>
  Every handler evaluates \<open>new Date()\<close> at most once and \<open>crypto.randomUUID()\<close> at most
  once, so one clock reading and one draw of 128 random bits describe a call.
  \<open>randomUUID\<close> prints the bits as a version 4 UUID: 32 lower-case hexadecimal digits
  in groups of 8, 4, 4, 4 and 12, the 13th digit being 4 and the 17th one of 8, 9, a, b.
\<close>

record env =
  now :: timestamp
  entropy :: "128 word"

definition hex_digit :: "nat \<Rightarrow> char" where
  "hex_digit n = ''0123456789abcdef'' ! (n mod 16)"

definition nibble :: "128 word \<Rightarrow> nat \<Rightarrow> nat" where
  "nibble w i = unat (drop_bit (4 * (31 - i)) w AND 15)"

definition uuid_nibbles :: "128 word \<Rightarrow> nat list" where
  "uuid_nibbles w =
     map (\<lambda>i. if i = 12 then 4 else if i = 16 then 8 + nibble w i mod 4 else nibble w i) [0..<32]"

definition randomUUID :: "128 word \<Rightarrow> string" where
  "randomUUID w =
     (let h = map hex_digit (uuid_nibbles w)
      in take 8 h @ ''-'' @ take 4 (drop 8 h) @ ''-'' @ take 4 (drop 12 h) @ ''-'' @
         take 4 (drop 16 h) @ ''-'' @ drop 20 h)"

section \<open>The seven actions (actions/index.ts, lines 53 to 258)\<close>

record 'a listing =
  items :: "'a list"
  total :: nat

definition lift :: "action_error + 'a \<Rightarrow> 'a io" where
  "lift r d = (r, d)"

definition createSpeech_handler :: "env \<Rightarrow> createSpeech_in \<Rightarrow> action_context \<Rightarrow> speech option io" where
  "createSpeech_handler e input context =
     await (lift (requireUser context)) (\<lambda>usr.
     await (insert_speech
              \<lparr>speech_id = randomUUID (entropy e),
               speech_userId = user_id usr,
               speech_title = cs_title input,
               speech_occasion = cs_occasion input,
               speech_audience = cs_audience input,
               speech_language = cs_language input,
               speech_notes = cs_notes input,
               speech_createdAt = now e,
               speech_updatedAt = now e\<rparr>)
       (\<lambda>rows. ret (first rows)))"

definition createSpeech :: "env \<Rightarrow> jsval \<Rightarrow> action_context \<Rightarrow> speech option io" where
  "createSpeech e = defineAction createSpeech_input (createSpeech_handler e)"

text \<open>The object given to \<open>.set\<close>: a column is assigned only when the input has it.\<close>

definition updateSpeech_set :: "updateSpeech_in \<Rightarrow> timestamp \<Rightarrow> speech \<Rightarrow> speech" where
  "updateSpeech_set input t r =
     (let r1 = (case us_title input of None \<Rightarrow> r | Some v \<Rightarrow> r\<lparr>speech_title := v\<rparr>);
          r2 = (case us_occasion input of None \<Rightarrow> r1 | Some v \<Rightarrow> r1\<lparr>speech_occasion := Some v\<rparr>);
          r3 = (case us_audience input of None \<Rightarrow> r2 | Some v \<Rightarrow> r2\<lparr>speech_audience := Some v\<rparr>);
          r4 = (case us_language input of None \<Rightarrow> r3 | Some v \<Rightarrow> r3\<lparr>speech_language := Some v\<rparr>);
          r5 = (case us_notes input of None \<Rightarrow> r4 | Some v \<Rightarrow> r4\<lparr>speech_notes := Some v\<rparr>)
      in r5\<lparr>speech_updatedAt := t\<rparr>)"

definition updateSpeech_handler :: "env \<Rightarrow> updateSpeech_in \<Rightarrow> action_context \<Rightarrow> speech option io" where
  "updateSpeech_handler e input context =
     await (lift (requireUser context)) (\<lambda>usr.
     await (getOwnedSpeech (us_id input) (user_id usr)) (\<lambda>_.
     await (update_speeches (updateSpeech_set input (now e)) (\<lambda>r. speech_id r = us_id input))
       (\<lambda>rows. ret (first rows))))"

definition updateSpeech :: "env \<Rightarrow> jsval \<Rightarrow> action_context \<Rightarrow> speech option io" where
  "updateSpeech e = defineAction updateSpeech_input (updateSpeech_handler e)"

definition listSpeeches_handler :: "unit option \<Rightarrow> action_context \<Rightarrow> speech listing io" where
  "listSpeeches_handler input context =
     await (lift (requireUser context)) (\<lambda>usr.
     await (select_speeches (\<lambda>r. speech_userId r = user_id usr))
       (\<lambda>rows. ret \<lparr>items = rows, total = length rows\<rparr>))"

definition listSpeeches :: "env \<Rightarrow> jsval \<Rightarrow> action_context \<Rightarrow> speech listing io" where
  "listSpeeches e = defineAction listSpeeches_input listSpeeches_handler"

definition createSpeechVersion_handler ::
  "env \<Rightarrow> createSpeechVersion_in \<Rightarrow> action_context \<Rightarrow> speech_version option io" where
  "createSpeechVersion_handler e input context =
     await (lift (requireUser context)) (\<lambda>usr.
     await (getOwnedSpeech (csv_speechId input) (user_id usr)) (\<lambda>_.
     await (insert_version
              \<lparr>version_id = randomUUID (entropy e),
               version_speechId = csv_speechId input,
               version_versionLabel = csv_versionLabel input,
               version_tone = csv_tone input,
               version_targetDurationMinutes = csv_targetDurationMinutes input,
               version_scriptText = csv_scriptText input,
               version_isPreferred = (case csv_isPreferred input of None \<Rightarrow> False | Some b \<Rightarrow> b),
               version_createdAt = now e\<rparr>)
       (\<lambda>rows. ret (first rows))))"

definition createSpeechVersion :: "env \<Rightarrow> jsval \<Rightarrow> action_context \<Rightarrow> speech_version option io" where
  "createSpeechVersion e = defineAction createSpeechVersion_input (createSpeechVersion_handler e)"

text \<open>
  The object given to \<open>.set\<close> in lines 196 to 204: a key is present only when the input
  has it.
\<close>

definition updateSpeechVersion_set :: "updateSpeechVersion_in \<Rightarrow> version_set" where
  "updateSpeechVersion_set input =
     \<lparr>set_versionLabel = usv_versionLabel input,
      set_tone = usv_tone input,
      set_targetDurationMinutes = usv_targetDurationMinutes input,
      set_scriptText = usv_scriptText input,
      set_isPreferred = usv_isPreferred input\<rparr>"

definition updateSpeechVersion_handler ::
  "env \<Rightarrow> updateSpeechVersion_in \<Rightarrow> action_context \<Rightarrow> speech_version option io" where
  "updateSpeechVersion_handler e input context =
     await (lift (requireUser context)) (\<lambda>usr.
     await (getOwnedSpeechVersion (usv_id input) (usv_speechId input) (user_id usr)) (\<lambda>_.
     await (update_versions (updateSpeechVersion_set input) (\<lambda>r. version_id r = usv_id input))
       (\<lambda>rows. ret (first rows))))"

definition updateSpeechVersion :: "env \<Rightarrow> jsval \<Rightarrow> action_context \<Rightarrow> speech_version option io" where
  "updateSpeechVersion e = defineAction updateSpeechVersion_input (updateSpeechVersion_handler e)"

text \<open>
  Lines 221 to 230, the part of the delete handler after the guard: the delete
  statement and the check of \<open>rowsAffected\<close>.
\<close>

definition deleteSpeechVersion_statement :: "deleteSpeechVersion_in \<Rightarrow> unit io" where
  "deleteSpeechVersion_statement input =
     await (delete_versions (\<lambda>r. version_id r = dsv_id input))
       (\<lambda>rowsAffected. if rowsAffected = 0 then throw NOT_FOUND else ret ())"

definition deleteSpeechVersion_handler ::
  "deleteSpeechVersion_in \<Rightarrow> action_context \<Rightarrow> unit io" where
  "deleteSpeechVersion_handler input context =
     await (lift (requireUser context)) (\<lambda>usr.
     await (getOwnedSpeechVersion (dsv_id input) (dsv_speechId input) (user_id usr)) (\<lambda>_.
     deleteSpeechVersion_statement input))"

definition deleteSpeechVersion :: "env \<Rightarrow> jsval \<Rightarrow> action_context \<Rightarrow> unit io" where
  "deleteSpeechVersion e = defineAction deleteSpeechVersion_input deleteSpeechVersion_handler"

definition listSpeechVersions_handler ::
  "listSpeechVersions_in \<Rightarrow> action_context \<Rightarrow> speech_version listing io" where
  "listSpeechVersions_handler input context =
     await (lift (requireUser context)) (\<lambda>usr.
     await (getOwnedSpeech (lsv_speechId input) (user_id usr)) (\<lambda>_.
     await (select_versions
              (if lsv_preferredOnly input
               then (\<lambda>r. version_speechId r = lsv_speechId input \<and> version_isPreferred r = True)
               else (\<lambda>r. version_speechId r = lsv_speechId input)))
       (\<lambda>rows. ret \<lparr>items = rows, total = length rows\<rparr>)))"

definition listSpeechVersions :: "env \<Rightarrow> jsval \<Rightarrow> action_context \<Rightarrow> speech_version listing io" where
  "listSpeechVersions e = defineAction listSpeechVersions_input listSpeechVersions_handler"

section \<open>A small store, used to run the actions on concrete inputs\<close>

definition alice :: app_user where
  "alice = \<lparr>user_id = ''alice''\<rparr>"

definition alice_context :: action_context where
  "alice_context = \<lparr>locals = Some \<lparr>user = Some alice\<rparr>\<rparr>"

definition anonymous_context :: action_context where
  "anonymous_context = \<lparr>locals = Some \<lparr>user = None\<rparr>\<rparr>"

definition toast :: speech where
  "toast = \<lparr>speech_id = ''s1'', speech_userId = ''alice'', speech_title = ''Wedding Toast'',
            speech_occasion = None, speech_audience = None, speech_language = None,
            speech_notes = None, speech_createdAt = 5, speech_updatedAt = 5\<rparr>"

definition draft :: speech_version where
  "draft = \<lparr>version_id = ''v1'', version_speechId = ''s1'', version_versionLabel = None,
            version_tone = None, version_targetDurationMinutes = None,
            version_scriptText = ''Hello'', version_isPreferred = True, version_createdAt = 6\<rparr>"

definition small_db :: database where
  "small_db = \<lparr>speeches = [toast], versions = [draft], issued = []\<rparr>"

definition at_five :: env where
  "at_five = \<lparr>now = 5, entropy = 0\<rparr>"

definition eulogy :: speech where
  "eulogy = \<lparr>speech_id = ''s2'', speech_userId = ''bob'', speech_title = ''Eulogy'',
             speech_occasion = Some ''funeral'', speech_audience = None, speech_language = None,
             speech_notes = None, speech_createdAt = 7, speech_updatedAt = 8\<rparr>"

definition outline :: speech_version where
  "outline = \<lparr>version_id = ''v2'', version_speechId = ''s1'', version_versionLabel = Some ''short'',
              version_tone = None, version_targetDurationMinutes = Some (Finite 3),
              version_scriptText = ''Hi'', version_isPreferred = False, version_createdAt = 9\<rparr>"



definition larger_db :: database where
  "larger_db = \<lparr>speeches = [toast, eulogy], versions = [draft, outline], issued = []\<rparr>"

section \<open>Facts about the guards\<close>

lemma first_filter_None: "first (filter P xs) = None \<longleftrightarrow> (\<forall>x\<in>set xs. \<not> P x)"
  by (induction xs) (auto simp: first_def)

lemma first_filter_Some: "first (filter P xs) = Some x \<Longrightarrow> x \<in> set xs \<and> P x"
  by (induction xs) (auto simp: first_def split: if_splits)

lemma issue_fields [simp]:
  "speeches (issue st d) = speeches d" "versions (issue st d) = versions d"
  "issued (issue st d) = issued d @ [st]"
  by (simp_all add: issue_def)

lemma getOwnedSpeech_run:
  "getOwnedSpeech s u d =
     ((case first (filter (\<lambda>r. speech_id r = s \<and> speech_userId r = u) (speeches d)) of
         None \<Rightarrow> Inl NOT_FOUND | Some r \<Rightarrow> Inr r),
      issue (SELECT Speeches) d)"
  by (simp add: getOwnedSpeech_def await_def select_speeches_def throw_def ret_def split: option.splits)



lemma returned_not_unauthorized [simp]: "returned rows \<noteq> Inl UNAUTHORIZED"
  by (simp add: returned_def)



lemma getOwnedSpeechVersion_run:
  "getOwnedSpeechVersion v s u d =
     (case first (filter (\<lambda>r. speech_id r = s \<and> speech_userId r = u) (speeches d)) of
        None \<Rightarrow> (Inl NOT_FOUND, issue (SELECT Speeches) d)
      | Some _ \<Rightarrow>
          ((case returned (filter (\<lambda>r. version_id r = v \<and> version_speechId r = s) (versions d)) of
              Inl err \<Rightarrow> Inl err
            | Inr rows \<Rightarrow> (case first rows of None \<Rightarrow> Inl NOT_FOUND | Some r \<Rightarrow> Inr r)),
           issue (SELECT SpeechVersions) (issue (SELECT Speeches) d)))"
  by (simp add: getOwnedSpeechVersion_def getOwnedSpeech_run await_def select_versions_def
      throw_def ret_def split: option.splits sum.splits)

lemma getOwnedSpeech_result:
  "(getOwnedSpeech s u d = (Inl NOT_FOUND, issue (SELECT Speeches) d) \<and>
      (\<forall>r\<in>set (speeches d). \<not> (speech_id r = s \<and> speech_userId r = u))) \<or>
   (\<exists>r. getOwnedSpeech s u d = (Inr r, issue (SELECT Speeches) d) \<and>
      r \<in> set (speeches d) \<and> speech_id r = s \<and> speech_userId r = u)"
proof (cases "first (filter (\<lambda>r. speech_id r = s \<and> speech_userId r = u) (speeches d))")
  case None
  then show ?thesis
    using first_filter_None [of "\<lambda>r. speech_id r = s \<and> speech_userId r = u" "speeches d"]
    by (simp add: getOwnedSpeech_run)
next
  case (Some r)
  then show ?thesis
    using first_filter_Some [OF Some] by (simp add: getOwnedSpeech_run)
qed




section \<open>Facts about the framework, the context and the generated id\<close>

lemma await_lift_Inl: "await (lift (Inl err)) k d = (Inl err, d)"
  by (simp add: await_def lift_def)

lemma requireUser_signed_in:
  "locals context = Some l \<Longrightarrow> user l = Some u \<Longrightarrow> requireUser context = Inr u"
  by (simp add: requireUser_def)

lemma requireUser_anonymous:
  "\<forall>l. locals context = Some l \<longrightarrow> user l = None \<Longrightarrow> requireUser context = Inl UNAUTHORIZED"
  by (cases "locals context") (simp_all add: requireUser_def)

lemma defineAction_rejected:
  "input raw = None \<Longrightarrow> defineAction input handler raw context d = (Inl BAD_REQUEST, d)"
  by (simp add: defineAction_def throw_def)

lemma defineAction_accepted:
  "input raw = Some parsed \<Longrightarrow> defineAction input handler raw context d = handler parsed context d"
  by (simp add: defineAction_def)

lemma length_uuid_nibbles: "length (uuid_nibbles w) = 32"
  by (simp add: uuid_nibbles_def)

lemma length_randomUUID: "length (randomUUID w) = 36"
  by (simp add: randomUUID_def Let_def length_uuid_nibbles)

lemma randomUUID_zero: "randomUUID 0 = ''00000000-0000-4000-8000-000000000000''"
  by code_simp

section \<open>What the handlers compute\<close>

lemma listSpeeches_handler_run:
  "requireUser context = Inr u \<Longrightarrow>
   listSpeeches_handler input context d =
     (Inr \<lparr>items = filter (\<lambda>r. speech_userId r = user_id u) (speeches d),
           total = length (filter (\<lambda>r. speech_userId r = user_id u) (speeches d))\<rparr>,
      issue (SELECT Speeches) d)"
  by (simp add: listSpeeches_handler_def await_def lift_def select_speeches_def ret_def)

lemma createSpeech_handler_run:
  "requireUser context = Inr u \<Longrightarrow>
   createSpeech_handler e input context d =
     (if randomUUID (entropy e) \<in> speech_id ` set (speeches d)
      then (Inl INTERNAL_SERVER_ERROR, issue (INSERT Speeches) d)
      else (Inr (Some \<lparr>speech_id = randomUUID (entropy e),
               speech_userId = user_id u,
               speech_title = cs_title input,
               speech_occasion = cs_occasion input,
               speech_audience = cs_audience input,
               speech_language = cs_language input,
               speech_notes = cs_notes input,
               speech_createdAt = now e,
               speech_updatedAt = now e\<rparr>),
            issue (INSERT Speeches)
              (d\<lparr>speeches := speeches d @
                 [\<lparr>speech_id = randomUUID (entropy e),
                   speech_userId = user_id u,
                   speech_title = cs_title input,
                   speech_occasion = cs_occasion input,
                   speech_audience = cs_audience input,
                   speech_language = cs_language input,
                   speech_notes = cs_notes input,
                   speech_createdAt = now e,
                   speech_updatedAt = now e\<rparr>]\<rparr>)))"
  by (simp add: createSpeech_handler_def await_def lift_def insert_speech_def ret_def first_def)

lemma createSpeech_input_title:
  "createSpeech_input raw = Some input \<Longrightarrow> cs_title input \<noteq> []"
  by (auto simp: createSpeech_input_def z_min_def bind_eq_Some_conv split: if_splits option.splits)

lemma key_filter_distinct:
  "distinct (map k xs) \<Longrightarrow> r \<in> set xs \<Longrightarrow> filter (\<lambda>x. k x = k r) xs = [r]"
proof (induction xs)
  case Nil
  then show ?case by simp
next
  case (Cons a xs)
  show ?case
  proof (cases "a = r")
    case True
    have "k r \<notin> k ` set xs" using Cons.prems(1) True by simp
    then have "filter (\<lambda>x. k x = k r) xs = []"
      by (simp add: filter_empty_conv image_iff) metis
    then show ?thesis using True by simp
  next
    case False
    then have mem: "r \<in> set xs" using Cons.prems(2) by simp
    have "k a \<notin> k ` set xs" using Cons.prems(1) by simp
    then have "k a \<noteq> k r" using mem by blast
    moreover have "filter (\<lambda>x. k x = k r) xs = [r]"
      using Cons.IH Cons.prems(1) mem by simp
    ultimately show ?thesis by simp
  qed
qed

lemma key_map_distinct:
  "distinct (map k xs) \<Longrightarrow> r \<in> set xs \<Longrightarrow>
   map (\<lambda>x. if k x = k r then f x else x) xs = map (\<lambda>x. if x = r then f r else x) xs"
proof -
  assume d: "distinct (map k xs)" and m: "r \<in> set xs"
  have "x \<in> set xs \<Longrightarrow> k x = k r \<Longrightarrow> x = r" for x
    using d m by (meson distinct_map inj_onD)
  then show ?thesis by (intro map_cong refl) auto
qed

lemma updateSpeech_handler_run:
  assumes "requireUser context = Inr u"
    and "getOwnedSpeech (us_id input) (user_id u) d = (Inr r, d1)"
  shows "updateSpeech_handler e input context d =
     (Inr (first (map (updateSpeech_set input (now e))
                   (filter (\<lambda>x. speech_id x = us_id input) (speeches d)))),
      issue (UPDATE Speeches)
        (d1\<lparr>speeches := map (\<lambda>x. if speech_id x = us_id input
                                  then updateSpeech_set input (now e) x else x) (speeches d)\<rparr>))"
proof -
  have d1: "d1 = issue (SELECT Speeches) d"
    using assms(2) by (simp add: getOwnedSpeech_run)
  show ?thesis
    by (simp add: updateSpeech_handler_def assms await_def lift_def update_speeches_def ret_def)
       (simp add: d1)
qed

lemma updateSpeech_handler_not_owned:
  assumes "requireUser context = Inr u"
    and "getOwnedSpeech (us_id input) (user_id u) d = (Inl err, d1)"
  shows "updateSpeech_handler e input context d = (Inl err, d1)"
  by (simp add: updateSpeech_handler_def assms await_def lift_def)

lemma preferred_filter:
  "filter (if b then (\<lambda>r. version_speechId r = sid \<and> version_isPreferred r = True)
           else (\<lambda>r. version_speechId r = sid)) xs =
   filter (\<lambda>x. version_speechId x = sid \<and> (b \<longrightarrow> version_isPreferred x)) xs"
  by (cases b) simp_all

lemma listSpeechVersions_handler_run:
  assumes "requireUser context = Inr u"
    and "getOwnedSpeech (lsv_speechId input) (user_id u) d = (Inr r, d1)"
  shows "listSpeechVersions_handler input context d =
     ((case returned (filter (\<lambda>x. version_speechId x = lsv_speechId input \<and>
                              (lsv_preferredOnly input \<longrightarrow> version_isPreferred x)) (versions d)) of
         Inl err \<Rightarrow> Inl err
       | Inr rows \<Rightarrow> Inr \<lparr>items = rows, total = length rows\<rparr>),
      issue (SELECT SpeechVersions) d1)"
proof -
  have d1: "d1 = issue (SELECT Speeches) d"
    using assms(2) by (simp add: getOwnedSpeech_run)
  show ?thesis
    by (simp add: listSpeechVersions_handler_def assms await_def lift_def select_versions_def
        ret_def preferred_filter d1 split: sum.splits)
qed

lemma listSpeechVersions_handler_not_owned:
  assumes "requireUser context = Inr u"
    and "getOwnedSpeech (lsv_speechId input) (user_id u) d = (Inl err, d1)"
  shows "listSpeechVersions_handler input context d = (Inl err, d1)"
  by (simp add: listSpeechVersions_handler_def assms await_def lift_def)

lemma deleteSpeechVersion_statement_run:
  "deleteSpeechVersion_statement input d =
     ((if \<forall>r\<in>set (versions d). version_id r \<noteq> dsv_id input then Inl NOT_FOUND else Inr ()),
      issue (DELETE SpeechVersions)
        (d\<lparr>versions := filter (\<lambda>r. version_id r \<noteq> dsv_id input) (versions d)\<rparr>))"
  by (simp add: deleteSpeechVersion_statement_def await_def delete_versions_def throw_def ret_def
      filter_empty_conv)



lemma handlers_anonymous:
  assumes "requireUser context = Inl err"
  shows "createSpeech_handler e i1 context d = (Inl err, d)"
    and "updateSpeech_handler e i2 context d = (Inl err, d)"
    and "listSpeeches_handler i3 context d = (Inl err, d)"
    and "createSpeechVersion_handler e i4 context d = (Inl err, d)"
    and "updateSpeechVersion_handler e i5 context d = (Inl err, d)"
    and "deleteSpeechVersion_handler i6 context d = (Inl err, d)"
    and "listSpeechVersions_handler i7 context d = (Inl err, d)"
  by (simp_all add: createSpeech_handler_def updateSpeech_handler_def listSpeeches_handler_def
      createSpeechVersion_handler_def updateSpeechVersion_handler_def
      deleteSpeechVersion_handler_def listSpeechVersions_handler_def assms await_lift_Inl)

section \<open>Facts about the schemas\<close>

lemma z_optional_undefined: "z_optional p JUndefined = Some None"
  by (simp add: z_optional_def)

lemma updateSpeech_object_absent:
  assumes "updateSpeech_object raw = Some input"
    and "property raw ''title'' = JUndefined" "property raw ''occasion'' = JUndefined"
    and "property raw ''audience'' = JUndefined" "property raw ''language'' = JUndefined"
    and "property raw ''notes'' = JUndefined"
  shows "us_title input = None \<and> us_occasion input = None \<and> us_audience input = None \<and>
         us_language input = None \<and> us_notes input = None"
  using assms(1)
  by (auto simp: updateSpeech_object_def assms(2-) z_optional_undefined bind_eq_Some_conv
      split: if_splits)

lemma updateSpeech_input_no_fields:
  assumes "property raw ''title'' = JUndefined" "property raw ''occasion'' = JUndefined"
    and "property raw ''audience'' = JUndefined" "property raw ''language'' = JUndefined"
    and "property raw ''notes'' = JUndefined"
  shows "updateSpeech_input raw = None"
proof (cases "updateSpeech_object raw")
  case None
  then show ?thesis by (simp add: updateSpeech_input_def z_refine_def)
next
  case (Some input)
  then show ?thesis
    using updateSpeech_object_absent [OF Some assms]
    by (simp add: updateSpeech_input_def z_refine_def)
qed

lemma updateSpeechVersion_object_absent:
  assumes "updateSpeechVersion_object raw = Some input"
    and "property raw ''versionLabel'' = JUndefined" "property raw ''tone'' = JUndefined"
    and "property raw ''targetDurationMinutes'' = JUndefined"
    and "property raw ''scriptText'' = JUndefined" "property raw ''isPreferred'' = JUndefined"
  shows "usv_versionLabel input = None \<and> usv_tone input = None \<and>
         usv_targetDurationMinutes input = None \<and> usv_scriptText input = None \<and>
         usv_isPreferred input = None"
  using assms(1)
  by (auto simp: updateSpeechVersion_object_def assms(2-) z_optional_undefined bind_eq_Some_conv
      split: if_splits)

lemma updateSpeechVersion_input_no_fields:
  assumes "property raw ''versionLabel'' = JUndefined" "property raw ''tone'' = JUndefined"
    and "property raw ''targetDurationMinutes'' = JUndefined"
    and "property raw ''scriptText'' = JUndefined" "property raw ''isPreferred'' = JUndefined"
  shows "updateSpeechVersion_input raw = None"
proof (cases "updateSpeechVersion_object raw")
  case None
  then show ?thesis by (simp add: updateSpeechVersion_input_def z_refine_def)
next
  case (Some input)
  then show ?thesis
    using updateSpeechVersion_object_absent [OF Some assms]
    by (simp add: updateSpeechVersion_input_def z_refine_def)
qed

lemma updateSpeech_input_some_field:
  "updateSpeech_input raw = Some input \<Longrightarrow>
   us_title input \<noteq> None \<or> us_occasion input \<noteq> None \<or> us_audience input \<noteq> None \<or>
   us_language input \<noteq> None \<or> us_notes input \<noteq> None"
  by (simp add: updateSpeech_input_def z_refine_def split: option.splits if_splits)

text \<open>Rewrite rules that evaluate a schema on a concrete input.\<close>

lemma property_eval:
  "property (JObj kvs) k = (case map_of kvs k of None \<Rightarrow> JUndefined | Some x \<Rightarrow> x)"
  "property JUndefined k = JUndefined"
  by (simp_all add: property_def)

lemmas store_eval =
  returned_def readable_version_def unsafe_integer_def bindable_def

lemmas schema_eval =
  createSpeech_input_def updateSpeech_input_def updateSpeech_object_def listSpeeches_input_def
  createSpeechVersion_input_def updateSpeechVersion_input_def updateSpeechVersion_object_def
  deleteSpeechVersion_input_def listSpeechVersions_input_def
  z_refine_def z_string_def z_min_def z_number_def z_boolean_def z_optional_def z_default_def
  is_object_def property_eval

section \<open>What the actions compute\<close>

lemma listSpeeches_run:
  "listSpeeches e raw context d =
     (case listSpeeches_input raw of
        None \<Rightarrow> (Inl BAD_REQUEST, d)
      | Some i \<Rightarrow>
          (case requireUser context of
             Inl err \<Rightarrow> (Inl err, d)
           | Inr u \<Rightarrow>
               (Inr \<lparr>items = filter (\<lambda>r. speech_userId r = user_id u) (speeches d),
                     total = length (filter (\<lambda>r. speech_userId r = user_id u) (speeches d))\<rparr>,
                issue (SELECT Speeches) d)))"
  by (simp add: listSpeeches_def defineAction_rejected defineAction_accepted
      listSpeeches_handler_run handlers_anonymous split: option.splits sum.splits)

lemma listSpeechVersions_run:
  "listSpeechVersions e raw context d =
     (case listSpeechVersions_input raw of
        None \<Rightarrow> (Inl BAD_REQUEST, d)
      | Some i \<Rightarrow>
          (case requireUser context of
             Inl err \<Rightarrow> (Inl err, d)
           | Inr u \<Rightarrow>
               (case getOwnedSpeech (lsv_speechId i) (user_id u) d of
                  (Inl err, d1) \<Rightarrow> (Inl err, d1)
                | (Inr _, d1) \<Rightarrow>
                    ((case returned (filter (\<lambda>x. version_speechId x = lsv_speechId i \<and>
                                     (lsv_preferredOnly i \<longrightarrow> version_isPreferred x)) (versions d)) of
                        Inl err \<Rightarrow> Inl err
                      | Inr rows \<Rightarrow> Inr \<lparr>items = rows, total = length rows\<rparr>),
                     issue (SELECT SpeechVersions) d1))))"
  by (simp add: listSpeechVersions_def defineAction_rejected defineAction_accepted
      listSpeechVersions_handler_run listSpeechVersions_handler_not_owned handlers_anonymous
      split: option.splits sum.splits prod.splits)

lemma createSpeech_run:
  "createSpeech e raw context d =
     (case createSpeech_input raw of
        None \<Rightarrow> (Inl BAD_REQUEST, d)
      | Some i \<Rightarrow>
          (case requireUser context of
             Inl err \<Rightarrow> (Inl err, d)
           | Inr u \<Rightarrow> createSpeech_handler e i context d))"
  by (simp add: createSpeech_def defineAction_rejected defineAction_accepted
      handlers_anonymous split: option.splits sum.splits)

lemma updateSpeech_run:
  "updateSpeech e raw context d =
     (case updateSpeech_input raw of
        None \<Rightarrow> (Inl BAD_REQUEST, d)
      | Some i \<Rightarrow>
          (case requireUser context of
             Inl err \<Rightarrow> (Inl err, d)
           | Inr u \<Rightarrow>
               (case getOwnedSpeech (us_id i) (user_id u) d of
                  (Inl err, d1) \<Rightarrow> (Inl err, d1)
                | (Inr _, d1) \<Rightarrow>
                    (Inr (first (map (updateSpeech_set i (now e))
                            (filter (\<lambda>x. speech_id x = us_id i) (speeches d)))),
                     issue (UPDATE Speeches)
                       (d1\<lparr>speeches := map (\<lambda>x. if speech_id x = us_id i
                               then updateSpeech_set i (now e) x else x) (speeches d)\<rparr>)))))"
  by (simp add: updateSpeech_def defineAction_rejected defineAction_accepted
      updateSpeech_handler_run updateSpeech_handler_not_owned handlers_anonymous
      split: option.splits sum.splits prod.splits)


lemma updateSpeech_set_fields:
  "speech_title (updateSpeech_set input t r) =
     (case us_title input of None \<Rightarrow> speech_title r | Some v \<Rightarrow> v)"
  "speech_occasion (updateSpeech_set input t r) =
     (case us_occasion input of None \<Rightarrow> speech_occasion r | Some v \<Rightarrow> Some v)"
  "speech_audience (updateSpeech_set input t r) =
     (case us_audience input of None \<Rightarrow> speech_audience r | Some v \<Rightarrow> Some v)"
  "speech_language (updateSpeech_set input t r) =
     (case us_language input of None \<Rightarrow> speech_language r | Some v \<Rightarrow> Some v)"
  "speech_notes (updateSpeech_set input t r) =
     (case us_notes input of None \<Rightarrow> speech_notes r | Some v \<Rightarrow> Some v)"
  "speech_id (updateSpeech_set input t r) = speech_id r"
  "speech_userId (updateSpeech_set input t r) = speech_userId r"
  "speech_createdAt (updateSpeech_set input t r) = speech_createdAt r"
  "speech_updatedAt (updateSpeech_set input t r) = t"
  by (simp_all add: updateSpeech_set_def Let_def split: option.splits)

lemmas action_defs =
  createSpeech_def updateSpeech_def listSpeeches_def createSpeechVersion_def
  updateSpeechVersion_def deleteSpeechVersion_def listSpeechVersions_def

lemma actions_rejected:
  "createSpeech_input raw = None \<Longrightarrow> createSpeech e raw context d = (Inl BAD_REQUEST, d)"
  "updateSpeech_input raw = None \<Longrightarrow> updateSpeech e raw context d = (Inl BAD_REQUEST, d)"
  "listSpeeches_input raw = None \<Longrightarrow> listSpeeches e raw context d = (Inl BAD_REQUEST, d)"
  "createSpeechVersion_input raw = None \<Longrightarrow>
     createSpeechVersion e raw context d = (Inl BAD_REQUEST, d)"
  "updateSpeechVersion_input raw = None \<Longrightarrow>
     updateSpeechVersion e raw context d = (Inl BAD_REQUEST, d)"
  "deleteSpeechVersion_input raw = None \<Longrightarrow>
     deleteSpeechVersion e raw context d = (Inl BAD_REQUEST, d)"
  "listSpeechVersions_input raw = None \<Longrightarrow>
     listSpeechVersions e raw context d = (Inl BAD_REQUEST, d)"
  by (simp_all add: action_defs defineAction_rejected)

lemma actions_anonymous:
  assumes "requireUser context = Inl err"
  shows "createSpeech_input raw \<noteq> None \<Longrightarrow> createSpeech e raw context d = (Inl err, d)"
    and "updateSpeech_input raw \<noteq> None \<Longrightarrow> updateSpeech e raw context d = (Inl err, d)"
    and "listSpeeches_input raw \<noteq> None \<Longrightarrow> listSpeeches e raw context d = (Inl err, d)"
    and "createSpeechVersion_input raw \<noteq> None \<Longrightarrow>
           createSpeechVersion e raw context d = (Inl err, d)"
    and "updateSpeechVersion_input raw \<noteq> None \<Longrightarrow>
           updateSpeechVersion e raw context d = (Inl err, d)"
    and "deleteSpeechVersion_input raw \<noteq> None \<Longrightarrow>
           deleteSpeechVersion e raw context d = (Inl err, d)"
    and "listSpeechVersions_input raw \<noteq> None \<Longrightarrow>
           listSpeechVersions e raw context d = (Inl err, d)"
  using assms by (auto simp add: action_defs defineAction_accepted handlers_anonymous)

lemma guards_not_unauthorized:
  "fst (getOwnedSpeech s u d) \<noteq> Inl UNAUTHORIZED"
  "fst (getOwnedSpeechVersion v s u d) \<noteq> Inl UNAUTHORIZED"
  by (auto simp add: getOwnedSpeech_run getOwnedSpeechVersion_run split: option.splits sum.splits)

lemma handlers_signed_in:
  assumes "requireUser context = Inr u"
  shows "fst (createSpeech_handler e i1 context d) \<noteq> Inl UNAUTHORIZED"
    and "fst (updateSpeech_handler e i2 context d) \<noteq> Inl UNAUTHORIZED"
    and "fst (listSpeeches_handler i3 context d) \<noteq> Inl UNAUTHORIZED"
    and "fst (createSpeechVersion_handler e i4 context d) \<noteq> Inl UNAUTHORIZED"
    and "fst (updateSpeechVersion_handler e i5 context d) \<noteq> Inl UNAUTHORIZED"
    and "fst (deleteSpeechVersion_handler i6 context d) \<noteq> Inl UNAUTHORIZED"
    and "fst (listSpeechVersions_handler i7 context d) \<noteq> Inl UNAUTHORIZED"
proof -
  show "fst (createSpeech_handler e i1 context d) \<noteq> Inl UNAUTHORIZED"
    by (simp add: createSpeech_handler_run [OF assms])
  show "fst (listSpeeches_handler i3 context d) \<noteq> Inl UNAUTHORIZED"
    by (simp add: listSpeeches_handler_run [OF assms])
  show "fst (updateSpeech_handler e i2 context d) \<noteq> Inl UNAUTHORIZED"
    using guards_not_unauthorized(1) [of "us_id i2" "user_id u" d]
    by (auto simp add: updateSpeech_handler_def assms await_def lift_def update_speeches_def ret_def
        split: prod.splits sum.splits)
  show "fst (createSpeechVersion_handler e i4 context d) \<noteq> Inl UNAUTHORIZED"
    using guards_not_unauthorized(1) [of "csv_speechId i4" "user_id u" d]
    by (auto simp add: createSpeechVersion_handler_def assms await_def lift_def insert_version_def
        ret_def split: prod.splits sum.splits)
  show "fst (updateSpeechVersion_handler e i5 context d) \<noteq> Inl UNAUTHORIZED"
    using guards_not_unauthorized(2) [of "usv_id i5" "usv_speechId i5" "user_id u" d]
    by (auto simp add: updateSpeechVersion_handler_def assms await_def lift_def update_versions_def
        ret_def split: prod.splits sum.splits)
  show "fst (deleteSpeechVersion_handler i6 context d) \<noteq> Inl UNAUTHORIZED"
    using guards_not_unauthorized(2) [of "dsv_id i6" "dsv_speechId i6" "user_id u" d]
    by (auto simp add: deleteSpeechVersion_handler_def assms await_def lift_def
        deleteSpeechVersion_statement_run split: prod.splits sum.splits)
  show "fst (listSpeechVersions_handler i7 context d) \<noteq> Inl UNAUTHORIZED"
    using guards_not_unauthorized(1) [of "lsv_speechId i7" "user_id u" d]
    by (auto simp add: listSpeechVersions_handler_def assms await_def lift_def select_versions_def
        ret_def split: prod.splits sum.splits)
qed

lemma defineAction_unauthorized_iff:
  assumes anon: "\<And>i err. requireUser context = Inl err \<Longrightarrow> handler i context d = (Inl err, d)"
    and signed: "\<And>i u. requireUser context = Inr u \<Longrightarrow> fst (handler i context d) \<noteq> Inl UNAUTHORIZED"
  shows "fst (defineAction input handler raw context d) = Inl UNAUTHORIZED \<longleftrightarrow>
         input raw \<noteq> None \<and> requireUser context = Inl UNAUTHORIZED"
proof (cases "input raw")
  case None
  then show ?thesis by (simp add: defineAction_rejected)
next
  case (Some i)
  show ?thesis
  proof (cases "requireUser context")
    case (Inl err)
    then show ?thesis
      using anon [OF Inl, of i] by (simp add: defineAction_def Some)
  next
    case (Inr u)
    then show ?thesis
      using signed [OF Inr, of i] by (simp add: defineAction_def Some)
  qed
qed

lemma actions_unauthorized_iff:
  "fst (createSpeech e raw context d) = Inl UNAUTHORIZED \<longleftrightarrow>
     createSpeech_input raw \<noteq> None \<and> requireUser context = Inl UNAUTHORIZED"
  "fst (updateSpeech e raw context d) = Inl UNAUTHORIZED \<longleftrightarrow>
     updateSpeech_input raw \<noteq> None \<and> requireUser context = Inl UNAUTHORIZED"
  "fst (listSpeeches e raw context d) = Inl UNAUTHORIZED \<longleftrightarrow>
     listSpeeches_input raw \<noteq> None \<and> requireUser context = Inl UNAUTHORIZED"
  "fst (createSpeechVersion e raw context d) = Inl UNAUTHORIZED \<longleftrightarrow>
     createSpeechVersion_input raw \<noteq> None \<and> requireUser context = Inl UNAUTHORIZED"
  "fst (updateSpeechVersion e raw context d) = Inl UNAUTHORIZED \<longleftrightarrow>
     updateSpeechVersion_input raw \<noteq> None \<and> requireUser context = Inl UNAUTHORIZED"
  "fst (deleteSpeechVersion e raw context d) = Inl UNAUTHORIZED \<longleftrightarrow>
     deleteSpeechVersion_input raw \<noteq> None \<and> requireUser context = Inl UNAUTHORIZED"
  "fst (listSpeechVersions e raw context d) = Inl UNAUTHORIZED \<longleftrightarrow>
     listSpeechVersions_input raw \<noteq> None \<and> requireUser context = Inl UNAUTHORIZED"
  unfolding action_defs
  by (rule defineAction_unauthorized_iff; simp add: handlers_anonymous handlers_signed_in)+

section \<open>The primary keys are invariant\<close>

text \<open>
  The primary keys are an invariant of the persistence layer: no statement, and so no
  guard and no action, leaves a table in which two rows share an id.
\<close>

lemma primary_keys_issue [simp]: "primary_keys (issue st d) = primary_keys d"
  by (simp add: primary_keys_def)

lemma assign_id [simp]: "version_id (assign vs r) = version_id r"
  by (simp add: assign_def Let_def split: option.splits)

lemma statements_keep_keys:
  assumes "primary_keys d"
  shows "primary_keys (snd (select_speeches P d))"
    and "primary_keys (snd (select_versions Q d))"
    and "primary_keys (snd (insert_speech r d))"
    and "primary_keys (snd (insert_version v d))"
    and "primary_keys (snd (update_speeches (updateSpeech_set i t) P d))"
    and "primary_keys (snd (update_versions vs Q d))"
    and "primary_keys (snd (delete_versions Q d))"
proof -
  have ids: "map (speech_id \<circ> (\<lambda>x. if P x then updateSpeech_set i t x else x)) xs =
             map speech_id xs" for xs
    by (induction xs) (simp_all add: updateSpeech_set_fields)
  have vids: "map (version_id \<circ> (\<lambda>x. if Q x then assign vs x else x)) xs =
              map version_id xs" for xs
    by (induction xs) simp_all
  show "primary_keys (snd (select_speeches P d))" "primary_keys (snd (select_versions Q d))"
    using assms by (simp_all add: select_speeches_def select_versions_def)
  show "primary_keys (snd (insert_speech r d))"
    using assms by (simp add: insert_speech_def primary_keys_def)
  show "primary_keys (snd (insert_version v d))"
    using assms by (simp add: insert_version_def primary_keys_def)
  show "primary_keys (snd (update_speeches (updateSpeech_set i t) P d))"
    using assms by (simp add: update_speeches_def primary_keys_def ids)
  show "primary_keys (snd (update_versions vs Q d))"
    using assms by (simp add: update_versions_def primary_keys_def vids)
  show "primary_keys (snd (delete_versions Q d))"
    using assms by (simp add: delete_versions_def primary_keys_def distinct_map_filter)
qed

lemma await_keeps:
  assumes "I d"
    and "\<And>d. I d \<Longrightarrow> I (snd (m d))"
    and "\<And>x d. I d \<Longrightarrow> I (snd (k x d))"
  shows "I (snd (await m k d))"
proof (cases "m d")
  case (Pair res d1)
  have d1: "I d1" using assms(2) [OF assms(1)] Pair by simp
  show ?thesis
  proof (cases res)
    case (Inl err)
    then show ?thesis using Pair d1 by (simp add: await_def)
  next
    case (Inr x)
    then show ?thesis using Pair assms(3) [OF d1, of x] by (simp add: await_def)
  qed
qed

lemma guards_keep_keys:
  assumes "primary_keys d"
  shows "primary_keys (snd (getOwnedSpeech s u d))"
    and "primary_keys (snd (getOwnedSpeechVersion v s u d))"
  using assms
  by (simp_all add: getOwnedSpeech_run getOwnedSpeechVersion_run split: option.splits)

lemma handlers_keep_keys:
  assumes "primary_keys d"
  shows "primary_keys (snd (createSpeech_handler e i1 context d))"
    and "primary_keys (snd (updateSpeech_handler e i2 context d))"
    and "primary_keys (snd (listSpeeches_handler i3 context d))"
    and "primary_keys (snd (createSpeechVersion_handler e i4 context d))"
    and "primary_keys (snd (updateSpeechVersion_handler e i5 context d))"
    and "primary_keys (snd (deleteSpeechVersion_handler i6 context d))"
    and "primary_keys (snd (listSpeechVersions_handler i7 context d))"
  unfolding createSpeech_handler_def updateSpeech_handler_def listSpeeches_handler_def
    createSpeechVersion_handler_def updateSpeechVersion_handler_def
    deleteSpeechVersion_handler_def listSpeechVersions_handler_def
    deleteSpeechVersion_statement_def
  by (intro await_keeps [where I = primary_keys] assms;
      simp add: statements_keep_keys guards_keep_keys lift_def ret_def throw_def)+

lemma actions_keep_keys:
  assumes "primary_keys d"
  shows "primary_keys (snd (createSpeech e raw context d))"
    and "primary_keys (snd (updateSpeech e raw context d))"
    and "primary_keys (snd (listSpeeches e raw context d))"
    and "primary_keys (snd (createSpeechVersion e raw context d))"
    and "primary_keys (snd (updateSpeechVersion e raw context d))"
    and "primary_keys (snd (deleteSpeechVersion e raw context d))"
    and "primary_keys (snd (listSpeechVersions e raw context d))"
  using assms
  by (simp_all add: action_defs defineAction_def throw_def handlers_keep_keys split: option.splits)

section \<open>The limits of the numeric column, on concrete numbers\<close>

lemma number_limits:
  "unsafe_integer (Finite (2 ^ 53))"
  "\<not> unsafe_integer (Finite (2 ^ 53 - 1))"
  "unsafe_integer (Finite (- (2 ^ 53)))"
  "unsafe_integer (Finite 100000000000000000)"
  "\<not> unsafe_integer (Finite (5 / 2))"
  "\<not> unsafe_integer (Finite (2 ^ 63))"
  "\<not> unsafe_integer PosInfinity"
  "\<not> bindable (Some PosInfinity)"
  "\<not> bindable (Some NegInfinity)"
  "bindable (Some (Finite (5 / 2)))"
  "bindable None"
  by (simp_all add: unsafe_integer_def bindable_def)

text \<open>
  A duration of \<open>2^53\<close> minutes is written by \<open>updateSpeechVersion\<close> and cannot be read
  back: the call fails and the row is changed.  A fraction is stored and returned.  An
  infinite duration is not sent: the call fails and the table is as it was.
\<close>

lemma update_beyond_limit:
  "updateSpeechVersion at_five
     (JObj [(''id'', JStr ''v1''), (''speechId'', JStr ''s1''),
            (''targetDurationMinutes'', JNum (Finite 9007199254740992))])
     alice_context small_db =
   (Inl INTERNAL_SERVER_ERROR,
    \<lparr>speeches = [toast],
     versions = [draft\<lparr>version_targetDurationMinutes := Some (Finite 9007199254740992)\<rparr>],
     issued = [SELECT Speeches, SELECT SpeechVersions, UPDATE SpeechVersions]\<rparr>)"
  by (simp add: small_db_def toast_def draft_def alice_context_def alice_def
      updateSpeechVersion_def defineAction_def updateSpeechVersion_handler_def
      updateSpeechVersion_set_def update_versions_def assign_def await_def lift_def ret_def
      first_def issue_def requireUser_def getOwnedSpeechVersion_run schema_eval store_eval
      del: not_None_eq)

lemma update_fraction:
  "updateSpeechVersion at_five
     (JObj [(''id'', JStr ''v1''), (''speechId'', JStr ''s1''),
            (''targetDurationMinutes'', JNum (Finite (5 / 2)))])
     alice_context small_db =
   (Inr (Some (draft\<lparr>version_targetDurationMinutes := Some (Finite (5 / 2))\<rparr>)),
    \<lparr>speeches = [toast],
     versions = [draft\<lparr>version_targetDurationMinutes := Some (Finite (5 / 2))\<rparr>],
     issued = [SELECT Speeches, SELECT SpeechVersions, UPDATE SpeechVersions]\<rparr>)"
  by (simp add: small_db_def toast_def draft_def alice_context_def alice_def
      updateSpeechVersion_def defineAction_def updateSpeechVersion_handler_def
      updateSpeechVersion_set_def update_versions_def assign_def await_def lift_def ret_def
      first_def issue_def requireUser_def getOwnedSpeechVersion_run schema_eval store_eval
      del: not_None_eq)

lemma create_infinite:
  "createSpeechVersion at_five
     (JObj [(''speechId'', JStr ''s1''), (''scriptText'', JStr ''Long''),
            (''targetDurationMinutes'', JNum PosInfinity)])
     alice_context small_db =
   (Inl INTERNAL_SERVER_ERROR,
    \<lparr>speeches = [toast], versions = [draft], issued = [SELECT Speeches, INSERT SpeechVersions]\<rparr>)"
  by (simp add: small_db_def toast_def draft_def alice_context_def alice_def
      createSpeechVersion_def defineAction_def createSpeechVersion_handler_def
      insert_version_def await_def lift_def ret_def first_def issue_def requireUser_def
      getOwnedSpeech_run schema_eval store_eval)

section \<open>The claims\<close>




text \<open>
  Claim C2 (listSpeeches).  For an authenticated caller, \<open>listSpeeches\<close> on an input its
  schema accepts returns a result; and whatever it returns holds exactly the stored
  speeches whose \<open>userId\<close> is the caller's id, in storage order, with their count, so no
  returned row belongs to another user.
\<close>

theorem listSpeeches_owned_rows:
  assumes "locals context = Some l" and "user l = Some u"
  shows "(listSpeeches_input raw \<noteq> None \<longrightarrow>
            (\<exists>res d'. listSpeeches e raw context d = (Inr res, d'))) \<and>
         (\<forall>res d'. listSpeeches e raw context d = (Inr res, d') \<longrightarrow>
            items res = filter (\<lambda>r. speech_userId r = user_id u) (speeches d) \<and>
            set (items res) = {r \<in> set (speeches d). speech_userId r = user_id u} \<and>
            total res = length (items res) \<and>
            (\<forall>r\<in>set (items res). speech_userId r = user_id u) \<and>
            speeches d' = speeches d \<and> versions d' = versions d)"
proof -
  have u: "requireUser context = Inr u"
    using assms by (rule requireUser_signed_in)
  show ?thesis
  proof (cases "listSpeeches_input raw")
    case None
    then show ?thesis by (simp add: listSpeeches_run)
  next
    case (Some i)
    then show ?thesis by (auto simp add: listSpeeches_run u)
  qed
qed

theorem listSpeeches_owned_rows_witness:
  "listSpeeches_input JUndefined \<noteq> None \<and>
   listSpeeches at_five JUndefined alice_context larger_db =
     (Inr \<lparr>items = [toast], total = 1\<rparr>, issue (SELECT Speeches) larger_db) \<and>
   speeches larger_db = [toast, eulogy] \<and> speech_userId eulogy = ''bob''"
  using listSpeeches_owned_rows [of alice_context "\<lparr>user = Some alice\<rparr>" alice JUndefined at_five larger_db]
  by (simp add: alice_context_def alice_def larger_db_def toast_def eulogy_def listSpeeches_run
      requireUser_def schema_eval)

text \<open>
  Claim C3 (createSpeech).  For an input the schema accepts and an authenticated
  caller: when the generated id is not yet a key of the Speeches table the call returns
  the created row and appends it to the table; and every row the call returns has the
  generated id, which is not empty and was not a key of the table before, has
  \<open>createdAt\<close> equal to \<open>updatedAt\<close> (the one clock reading of the call), has the
  caller's id as \<open>userId\<close>, and carries the non-empty title of the input.
\<close>

theorem createSpeech_returned_row:
  assumes "createSpeech_input raw = Some input"
    and "locals context = Some l" and "user l = Some u"
  shows "(randomUUID (entropy e) \<notin> speech_id ` set (speeches d) \<longrightarrow>
            (\<exists>row d'. createSpeech e raw context d = (Inr (Some row), d'))) \<and>
         (\<forall>res d'. createSpeech e raw context d = (Inr res, d') \<longrightarrow>
            (\<exists>row. res = Some row \<and>
               speech_id row = randomUUID (entropy e) \<and>
               speech_id row \<noteq> [] \<and>
               speech_id row \<notin> speech_id ` set (speeches d) \<and>
               speech_createdAt row = speech_updatedAt row \<and>
               speech_createdAt row = now e \<and>
               speech_userId row = user_id u \<and>
               speech_title row = cs_title input \<and>
               speech_title row \<noteq> [] \<and>
               speeches d' = speeches d @ [row] \<and>
               versions d' = versions d))"
proof -
  have u: "requireUser context = Inr u"
    using assms(2,3) by (rule requireUser_signed_in)
  have run: "createSpeech e raw context d = createSpeech_handler e input context d"
    by (simp add: createSpeech_run assms(1) u)
  have nonempty: "randomUUID (entropy e) \<noteq> []"
    using length_randomUUID [of "entropy e"] by auto
  note title = createSpeech_input_title [OF assms(1)]
  show ?thesis
  proof (cases "randomUUID (entropy e) \<in> speech_id ` set (speeches d)")
    case True
    then show ?thesis
      by (simp add: run createSpeech_handler_run [OF u])
  next
    case False
    then show ?thesis
      using nonempty title by (auto simp add: run createSpeech_handler_run [OF u])
  qed
qed

theorem createSpeech_returned_row_witness:
  "createSpeech_input (JObj [(''title'', JStr ''Farewell'')]) =
     Some \<lparr>cs_title = ''Farewell'', cs_occasion = None, cs_audience = None,
           cs_language = None, cs_notes = None\<rparr> \<and>
   locals alice_context = Some \<lparr>user = Some alice\<rparr> \<and>
   randomUUID (entropy at_five) \<notin> speech_id ` set (speeches small_db) \<and>
   fst (createSpeech at_five (JObj [(''title'', JStr ''Farewell'')]) alice_context small_db) =
     Inr (Some \<lparr>speech_id = ''00000000-0000-4000-8000-000000000000'', speech_userId = ''alice'',
                speech_title = ''Farewell'', speech_occasion = None, speech_audience = None,
                speech_language = None, speech_notes = None,
                speech_createdAt = 5, speech_updatedAt = 5\<rparr>)"
  using createSpeech_returned_row [of "JObj [(''title'', JStr ''Farewell'')]"
      "\<lparr>cs_title = ''Farewell'', cs_occasion = None, cs_audience = None,
           cs_language = None, cs_notes = None\<rparr>" alice_context "\<lparr>user = Some alice\<rparr>" alice
      at_five small_db]
  by (simp add: alice_context_def alice_def small_db_def toast_def at_five_def randomUUID_zero
      createSpeech_run createSpeech_handler_def insert_speech_def await_def lift_def ret_def
      first_def issue_def requireUser_def schema_eval)

text \<open>
  Claim C4 (updateSpeech), as amended.  For an input the schema accepts (so at least one
  mutable field is present), an authenticated caller and a stored speech \<open>r\<close> with the
  input's id that the caller owns, in a store whose ids are primary keys: the call
  returns the updated row \<open>r'\<close> and stores it in place of \<open>r\<close>, every other row of both
  tables unchanged.  In \<open>r'\<close> each of title, occasion, audience, language and notes
  holds the input's value when the input has the field and the value of \<open>r\<close> when it
  has not; id, userId and createdAt are those of \<open>r\<close>; and updatedAt is the clock reading
  of the call, which is later than the old updatedAt exactly when the clock reads later.
\<close>

theorem updateSpeech_partial_update:
  assumes "updateSpeech_input raw = Some input"
    and "locals context = Some l" and "user l = Some u"
    and "primary_keys d"
    and "r \<in> set (speeches d)" and "speech_id r = us_id input" and "speech_userId r = user_id u"
  shows "\<exists>r' d'. updateSpeech e raw context d = (Inr (Some r'), d') \<and>
      speeches d' = map (\<lambda>x. if x = r then r' else x) (speeches d) \<and>
      versions d' = versions d \<and>
      speech_title r' = (case us_title input of None \<Rightarrow> speech_title r | Some v \<Rightarrow> v) \<and>
      speech_occasion r' = (case us_occasion input of None \<Rightarrow> speech_occasion r | Some v \<Rightarrow> Some v) \<and>
      speech_audience r' = (case us_audience input of None \<Rightarrow> speech_audience r | Some v \<Rightarrow> Some v) \<and>
      speech_language r' = (case us_language input of None \<Rightarrow> speech_language r | Some v \<Rightarrow> Some v) \<and>
      speech_notes r' = (case us_notes input of None \<Rightarrow> speech_notes r | Some v \<Rightarrow> Some v) \<and>
      speech_id r' = speech_id r \<and>
      speech_userId r' = speech_userId r \<and>
      speech_createdAt r' = speech_createdAt r \<and>
      speech_updatedAt r' = now e \<and>
      (speech_updatedAt r < speech_updatedAt r' \<longleftrightarrow> speech_updatedAt r < now e) \<and>
      (us_title input \<noteq> None \<or> us_occasion input \<noteq> None \<or> us_audience input \<noteq> None \<or>
       us_language input \<noteq> None \<or> us_notes input \<noteq> None)"
proof -
  let ?f = "updateSpeech_set input (now e)"
  have u: "requireUser context = Inr u"
    using assms(2,3) by (rule requireUser_signed_in)
  have keys: "distinct (map speech_id (speeches d))"
    using assms(4) by (simp add: primary_keys_def)
  obtain r0 where guard: "getOwnedSpeech (us_id input) (user_id u) d = (Inr r0, issue (SELECT Speeches) d)"
    using getOwnedSpeech_result [of "us_id input" "user_id u" d] assms(5-7) by blast
  have rows: "filter (\<lambda>x. speech_id x = us_id input) (speeches d) = [r]"
    using key_filter_distinct [OF keys assms(5)] by (simp add: assms(6))
  have table: "map (\<lambda>x. if speech_id x = us_id input then ?f x else x) (speeches d) =
               map (\<lambda>x. if x = r then ?f r else x) (speeches d)"
    using key_map_distinct [OF keys assms(5), of ?f] by (simp add: assms(6))
  have run: "updateSpeech e raw context d =
      (Inr (Some (?f r)),
       issue (UPDATE Speeches)
         (issue (SELECT Speeches) d\<lparr>speeches := map (\<lambda>x. if x = r then ?f r else x) (speeches d)\<rparr>))"
    by (simp add: updateSpeech_run assms(1) u guard rows table first_def)
  have some: "us_title input \<noteq> None \<or> us_occasion input \<noteq> None \<or> us_audience input \<noteq> None \<or>
       us_language input \<noteq> None \<or> us_notes input \<noteq> None"
    using assms(1) by (rule updateSpeech_input_some_field)
  show ?thesis
    using some
    by (intro exI [of _ "?f r"] exI [of _ "issue (UPDATE Speeches)
         (issue (SELECT Speeches) d\<lparr>speeches := map (\<lambda>x. if x = r then ?f r else x) (speeches d)\<rparr>)"] conjI)
      (simp_all add: run updateSpeech_set_fields)
qed

theorem updateSpeech_partial_update_witness:
  "updateSpeech_input (JObj [(''id'', JStr ''s1''), (''notes'', JStr ''short'')]) =
     Some \<lparr>us_id = ''s1'', us_title = None, us_occasion = None, us_audience = None,
           us_language = None, us_notes = Some ''short''\<rparr> \<and>
   primary_keys larger_db \<and> toast \<in> set (speeches larger_db) \<and>
   updateSpeech \<lparr>now = 11, entropy = 0\<rparr>
       (JObj [(''id'', JStr ''s1''), (''notes'', JStr ''short'')]) alice_context larger_db =
     (Inr (Some (toast\<lparr>speech_notes := Some ''short'', speech_updatedAt := 11\<rparr>)),
      issue (UPDATE Speeches) (issue (SELECT Speeches)
        (larger_db\<lparr>speeches := [toast\<lparr>speech_notes := Some ''short'', speech_updatedAt := 11\<rparr>,
                                eulogy]\<rparr>)))"
  using updateSpeech_partial_update [of "JObj [(''id'', JStr ''s1''), (''notes'', JStr ''short'')]"
      "\<lparr>us_id = ''s1'', us_title = None, us_occasion = None, us_audience = None,
        us_language = None, us_notes = Some ''short''\<rparr>"
      alice_context "\<lparr>user = Some alice\<rparr>" alice larger_db toast "\<lparr>now = 11, entropy = 0\<rparr>"]
  by (simp add: alice_context_def alice_def larger_db_def toast_def eulogy_def draft_def outline_def
      primary_keys_def updateSpeech_run updateSpeech_set_def getOwnedSpeech_run first_def issue_def
      requireUser_def schema_eval)

text \<open>
  The claim as stated fails where the clock has not advanced: updating \<open>toast\<close> at
  time 5, the time of its last update, leaves \<open>updatedAt\<close> at 5.
\<close>

theorem updateSpeech_updatedAt_counterexample:
  "fst (updateSpeech at_five (JObj [(''id'', JStr ''s1''), (''title'', JStr ''New'')])
         alice_context small_db) = Inr (Some (toast\<lparr>speech_title := ''New''\<rparr>)) \<and>
   speeches (snd (updateSpeech at_five (JObj [(''id'', JStr ''s1''), (''title'', JStr ''New'')])
         alice_context small_db)) = [toast\<lparr>speech_title := ''New''\<rparr>] \<and>
   speeches small_db = [toast] \<and>
   speech_updatedAt toast = 5 \<and>
   speech_updatedAt (toast\<lparr>speech_title := ''New''\<rparr>) = 5 \<and>
   \<not> speech_updatedAt toast < speech_updatedAt (toast\<lparr>speech_title := ''New''\<rparr>)"
  by (simp add: alice_context_def alice_def small_db_def toast_def draft_def at_five_def
      updateSpeech_run updateSpeech_set_def getOwnedSpeech_run first_def issue_def
      requireUser_def schema_eval)

text \<open>
  Claim C5 (update without fields).  An input to \<open>updateSpeech\<close> in which none of
  title, occasion, audience, language and notes is present, and an input to
  \<open>updateSpeechVersion\<close> in which none of versionLabel, tone, targetDurationMinutes,
  scriptText and isPreferred is present, is rejected with the input error
  \<open>BAD_REQUEST\<close>, whoever calls; the store comes back as it was, with no statement
  issued, so neither the guard nor the update ran.
\<close>

theorem update_without_fields_rejected:
  "(property raw ''title'' = JUndefined \<and> property raw ''occasion'' = JUndefined \<and>
    property raw ''audience'' = JUndefined \<and> property raw ''language'' = JUndefined \<and>
    property raw ''notes'' = JUndefined \<longrightarrow>
      updateSpeech e raw context d = (Inl BAD_REQUEST, d)) \<and>
   (property raw ''versionLabel'' = JUndefined \<and> property raw ''tone'' = JUndefined \<and>
    property raw ''targetDurationMinutes'' = JUndefined \<and>
    property raw ''scriptText'' = JUndefined \<and> property raw ''isPreferred'' = JUndefined \<longrightarrow>
      updateSpeechVersion e raw context d = (Inl BAD_REQUEST, d))"
proof (intro conjI impI; elim conjE)
  assume "property raw ''title'' = JUndefined" "property raw ''occasion'' = JUndefined"
    "property raw ''audience'' = JUndefined" "property raw ''language'' = JUndefined"
    "property raw ''notes'' = JUndefined"
  then have "updateSpeech_input raw = None"
    by (rule updateSpeech_input_no_fields)
  then show "updateSpeech e raw context d = (Inl BAD_REQUEST, d)"
    by (simp add: updateSpeech_def defineAction_rejected)
next
  assume "property raw ''versionLabel'' = JUndefined" "property raw ''tone'' = JUndefined"
    "property raw ''targetDurationMinutes'' = JUndefined"
    "property raw ''scriptText'' = JUndefined" "property raw ''isPreferred'' = JUndefined"
  then have "updateSpeechVersion_input raw = None"
    by (rule updateSpeechVersion_input_no_fields)
  then show "updateSpeechVersion e raw context d = (Inl BAD_REQUEST, d)"
    by (simp add: updateSpeechVersion_def defineAction_rejected)
qed

theorem update_without_fields_rejected_witness:
  "property (JObj [(''id'', JStr ''s1'')]) ''title'' = JUndefined \<and>
   property (JObj [(''id'', JStr ''s1'')]) ''notes'' = JUndefined \<and>
   updateSpeech at_five (JObj [(''id'', JStr ''s1'')]) alice_context small_db =
     (Inl BAD_REQUEST, small_db) \<and>
   property (JObj [(''id'', JStr ''v1''), (''speechId'', JStr ''s1'')]) ''isPreferred'' = JUndefined \<and>
   updateSpeechVersion at_five (JObj [(''id'', JStr ''v1''), (''speechId'', JStr ''s1'')])
     alice_context small_db = (Inl BAD_REQUEST, small_db) \<and>
   issued small_db = []"
  using update_without_fields_rejected [of "JObj [(''id'', JStr ''s1'')]" at_five alice_context small_db]
    update_without_fields_rejected [of "JObj [(''id'', JStr ''v1''), (''speechId'', JStr ''s1'')]"
      at_five alice_context small_db]
  by (simp add: property_eval small_db_def)







text \<open>
  Claim C8 (no authenticated caller), as amended.  When the request context carries no
  user, each of the seven actions fails and returns the store as it was, with no
  statement issued: with \<open>UNAUTHORIZED\<close> when the input schema accepts the input,
  and with the input error \<open>BAD_REQUEST\<close> when it does not.
\<close>

theorem anonymous_caller_rejected:
  assumes "\<forall>l. locals context = Some l \<longrightarrow> user l = None"
  shows
    "createSpeech e raw context d =
       (Inl (if createSpeech_input raw = None then BAD_REQUEST else UNAUTHORIZED), d) \<and>
     updateSpeech e raw context d =
       (Inl (if updateSpeech_input raw = None then BAD_REQUEST else UNAUTHORIZED), d) \<and>
     listSpeeches e raw context d =
       (Inl (if listSpeeches_input raw = None then BAD_REQUEST else UNAUTHORIZED), d) \<and>
     createSpeechVersion e raw context d =
       (Inl (if createSpeechVersion_input raw = None then BAD_REQUEST else UNAUTHORIZED), d) \<and>
     updateSpeechVersion e raw context d =
       (Inl (if updateSpeechVersion_input raw = None then BAD_REQUEST else UNAUTHORIZED), d) \<and>
     deleteSpeechVersion e raw context d =
       (Inl (if deleteSpeechVersion_input raw = None then BAD_REQUEST else UNAUTHORIZED), d) \<and>
     listSpeechVersions e raw context d =
       (Inl (if listSpeechVersions_input raw = None then BAD_REQUEST else UNAUTHORIZED), d)"
proof -
  have anon: "requireUser context = Inl UNAUTHORIZED"
    using assms by (rule requireUser_anonymous)
  show ?thesis
    by (intro conjI) (simp_all add: actions_rejected actions_anonymous [OF anon])
qed

theorem anonymous_caller_rejected_witness:
  "locals anonymous_context = Some \<lparr>user = None\<rparr> \<and>
   createSpeech at_five (JObj [(''title'', JStr ''Farewell'')]) anonymous_context small_db =
     (Inl UNAUTHORIZED, small_db) \<and>
   updateSpeech at_five (JObj [(''id'', JStr ''s1''), (''title'', JStr ''New'')])
     anonymous_context small_db = (Inl UNAUTHORIZED, small_db) \<and>
   listSpeeches at_five JUndefined anonymous_context small_db = (Inl UNAUTHORIZED, small_db) \<and>
   createSpeechVersion at_five (JObj [(''speechId'', JStr ''s1''), (''scriptText'', JStr ''Hi'')])
     anonymous_context small_db = (Inl UNAUTHORIZED, small_db) \<and>
   updateSpeechVersion at_five
     (JObj [(''id'', JStr ''v1''), (''speechId'', JStr ''s1''), (''isPreferred'', JBool False)])
     anonymous_context small_db = (Inl UNAUTHORIZED, small_db) \<and>
   deleteSpeechVersion at_five (JObj [(''id'', JStr ''v1''), (''speechId'', JStr ''s1'')])
     anonymous_context small_db = (Inl UNAUTHORIZED, small_db) \<and>
   listSpeechVersions at_five (JObj [(''speechId'', JStr ''s1'')]) anonymous_context small_db =
     (Inl UNAUTHORIZED, small_db) \<and>
   createSpeech at_five (JObj [(''title'', JStr [])]) anonymous_context small_db =
     (Inl BAD_REQUEST, small_db)"
proof -
  have l: "locals anonymous_context = Some \<lparr>user = None\<rparr>"
    by (simp add: anonymous_context_def)
  have anon: "\<forall>l. locals anonymous_context = Some l \<longrightarrow> user l = None"
    by (simp add: l)
  note run = anonymous_caller_rejected [OF anon, of at_five _ small_db]
  have 1: "createSpeech at_five (JObj [(''title'', JStr ''Farewell'')]) anonymous_context small_db =
     (Inl UNAUTHORIZED, small_db)"
    using run [of "JObj [(''title'', JStr ''Farewell'')]"] by (simp add: schema_eval)
  have 2: "updateSpeech at_five (JObj [(''id'', JStr ''s1''), (''title'', JStr ''New'')])
     anonymous_context small_db = (Inl UNAUTHORIZED, small_db)"
    using run [of "JObj [(''id'', JStr ''s1''), (''title'', JStr ''New'')]"]
    by (simp add: schema_eval)
  have 3: "listSpeeches at_five JUndefined anonymous_context small_db = (Inl UNAUTHORIZED, small_db)"
    using run [of JUndefined] by (simp add: schema_eval)
  have 4: "createSpeechVersion at_five
     (JObj [(''speechId'', JStr ''s1''), (''scriptText'', JStr ''Hi'')])
     anonymous_context small_db = (Inl UNAUTHORIZED, small_db)"
    using run [of "JObj [(''speechId'', JStr ''s1''), (''scriptText'', JStr ''Hi'')]"]
    by (simp add: schema_eval)
  have 5: "updateSpeechVersion at_five
     (JObj [(''id'', JStr ''v1''), (''speechId'', JStr ''s1''), (''isPreferred'', JBool False)])
     anonymous_context small_db = (Inl UNAUTHORIZED, small_db)"
    using run [of "JObj [(''id'', JStr ''v1''), (''speechId'', JStr ''s1''),
                         (''isPreferred'', JBool False)]"]
    by (simp add: schema_eval del: not_None_eq)
  have 6: "deleteSpeechVersion at_five (JObj [(''id'', JStr ''v1''), (''speechId'', JStr ''s1'')])
     anonymous_context small_db = (Inl UNAUTHORIZED, small_db)"
    using run [of "JObj [(''id'', JStr ''v1''), (''speechId'', JStr ''s1'')]"]
    by (simp add: schema_eval)
  have 7: "listSpeechVersions at_five (JObj [(''speechId'', JStr ''s1'')]) anonymous_context
     small_db = (Inl UNAUTHORIZED, small_db)"
    using run [of "JObj [(''speechId'', JStr ''s1'')]"] by (simp add: schema_eval)
  have 8: "createSpeech at_five (JObj [(''title'', JStr [])]) anonymous_context small_db =
     (Inl BAD_REQUEST, small_db)"
    using run [of "JObj [(''title'', JStr [])]"] by (simp add: schema_eval)
  show ?thesis
    by (intro conjI l 1 2 3 4 5 6 7 8)
qed

text \<open>
  The claim as stated, for every input, fails on an input the schema rejects: an
  update that names no field, sent without a user, raises the input error.
\<close>

theorem anonymous_invalid_input_counterexample:
  "requireUser anonymous_context = Inl UNAUTHORIZED \<and>
   updateSpeech at_five (JObj [(''id'', JStr ''s1'')]) anonymous_context small_db =
     (Inl BAD_REQUEST, small_db) \<and>
   fst (updateSpeech at_five (JObj [(''id'', JStr ''s1'')]) anonymous_context small_db) \<noteq>
     Inl UNAUTHORIZED"
  by (simp add: updateSpeech_run requireUser_def anonymous_context_def schema_eval)

text \<open>
  Claim C9 (validation comes first).  For each of the seven actions, an input its schema
  rejects raises the input error \<open>BAD_REQUEST\<close> whatever the request context holds, so
  also when no caller is authenticated, and leaves the store as it was; and the action
  fails with \<open>UNAUTHORIZED\<close> exactly when the schema accepts the input and the context
  carries no user.
\<close>

theorem validation_before_authentication:
  "(createSpeech_input raw = None \<longrightarrow> createSpeech e raw context d = (Inl BAD_REQUEST, d)) \<and>
   (updateSpeech_input raw = None \<longrightarrow> updateSpeech e raw context d = (Inl BAD_REQUEST, d)) \<and>
   (listSpeeches_input raw = None \<longrightarrow> listSpeeches e raw context d = (Inl BAD_REQUEST, d)) \<and>
   (createSpeechVersion_input raw = None \<longrightarrow>
      createSpeechVersion e raw context d = (Inl BAD_REQUEST, d)) \<and>
   (updateSpeechVersion_input raw = None \<longrightarrow>
      updateSpeechVersion e raw context d = (Inl BAD_REQUEST, d)) \<and>
   (deleteSpeechVersion_input raw = None \<longrightarrow>
      deleteSpeechVersion e raw context d = (Inl BAD_REQUEST, d)) \<and>
   (listSpeechVersions_input raw = None \<longrightarrow>
      listSpeechVersions e raw context d = (Inl BAD_REQUEST, d)) \<and>
   (fst (createSpeech e raw context d) = Inl UNAUTHORIZED \<longleftrightarrow>
      createSpeech_input raw \<noteq> None \<and> requireUser context = Inl UNAUTHORIZED) \<and>
   (fst (updateSpeech e raw context d) = Inl UNAUTHORIZED \<longleftrightarrow>
      updateSpeech_input raw \<noteq> None \<and> requireUser context = Inl UNAUTHORIZED) \<and>
   (fst (listSpeeches e raw context d) = Inl UNAUTHORIZED \<longleftrightarrow>
      listSpeeches_input raw \<noteq> None \<and> requireUser context = Inl UNAUTHORIZED) \<and>
   (fst (createSpeechVersion e raw context d) = Inl UNAUTHORIZED \<longleftrightarrow>
      createSpeechVersion_input raw \<noteq> None \<and> requireUser context = Inl UNAUTHORIZED) \<and>
   (fst (updateSpeechVersion e raw context d) = Inl UNAUTHORIZED \<longleftrightarrow>
      updateSpeechVersion_input raw \<noteq> None \<and> requireUser context = Inl UNAUTHORIZED) \<and>
   (fst (deleteSpeechVersion e raw context d) = Inl UNAUTHORIZED \<longleftrightarrow>
      deleteSpeechVersion_input raw \<noteq> None \<and> requireUser context = Inl UNAUTHORIZED) \<and>
   (fst (listSpeechVersions e raw context d) = Inl UNAUTHORIZED \<longleftrightarrow>
      listSpeechVersions_input raw \<noteq> None \<and> requireUser context = Inl UNAUTHORIZED)"
  by (intro conjI impI actions_unauthorized_iff) (rule actions_rejected; assumption)+

theorem validation_before_authentication_witness:
  "updateSpeech_input (JObj [(''id'', JStr ''s1'')]) = None \<and>
   requireUser anonymous_context = Inl UNAUTHORIZED \<and>
   updateSpeech at_five (JObj [(''id'', JStr ''s1'')]) anonymous_context small_db =
     (Inl BAD_REQUEST, small_db) \<and>
   createSpeech_input (JObj []) = None \<and>
   createSpeech at_five (JObj []) anonymous_context small_db = (Inl BAD_REQUEST, small_db) \<and>
   updateSpeech_input (JObj [(''id'', JStr ''s1''), (''title'', JStr ''New'')]) \<noteq> None \<and>
   fst (updateSpeech at_five (JObj [(''id'', JStr ''s1''), (''title'', JStr ''New'')])
          anonymous_context small_db) = Inl UNAUTHORIZED"
  using validation_before_authentication [of "JObj [(''id'', JStr ''s1'')]" at_five
      anonymous_context small_db]
    validation_before_authentication [of "JObj []" at_five anonymous_context small_db]
    validation_before_authentication [of "JObj [(''id'', JStr ''s1''), (''title'', JStr ''New'')]"
      at_five anonymous_context small_db]
  by (simp add: schema_eval requireUser_def anonymous_context_def)

text \<open>
  Claim C10 (count).  Whenever \<open>listSpeeches\<close> or \<open>listSpeechVersions\<close> returns a
  result, its \<open>total\<close> is the number of elements of its \<open>items\<close>.
\<close>

theorem list_total_is_length:
  "(\<forall>res d'. listSpeeches e raw context d = (Inr res, d') \<longrightarrow> total res = length (items res)) \<and>
   (\<forall>res d'. listSpeechVersions e raw context d = (Inr res, d') \<longrightarrow>
      total res = length (items res))"
proof (intro conjI allI impI)
  fix res d'
  assume "listSpeeches e raw context d = (Inr res, d')"
  then show "total res = length (items res)"
    by (auto simp add: listSpeeches_run split: option.splits sum.splits)
next
  fix res d'
  assume "listSpeechVersions e raw context d = (Inr res, d')"
  then show "total res = length (items res)"
    by (auto simp add: listSpeechVersions_run split: option.splits sum.splits prod.splits)
qed

theorem list_total_is_length_witness:
  "listSpeeches at_five (JObj []) alice_context larger_db =
     (Inr \<lparr>items = [toast], total = 1\<rparr>, issue (SELECT Speeches) larger_db) \<and>
   listSpeechVersions at_five (JObj [(''speechId'', JStr ''s1'')]) alice_context larger_db =
     (Inr \<lparr>items = [draft, outline], total = 2\<rparr>,
      issue (SELECT SpeechVersions) (issue (SELECT Speeches) larger_db))"
  using list_total_is_length [of at_five "JObj []" alice_context larger_db]
    list_total_is_length [of at_five "JObj [(''speechId'', JStr ''s1'')]" alice_context larger_db]
  by (simp add: alice_context_def alice_def larger_db_def toast_def eulogy_def draft_def outline_def
      listSpeeches_run listSpeechVersions_run getOwnedSpeech_run first_def requireUser_def schema_eval
      store_eval)

end
